theory Spec2Isabelle
  imports Complex_Main "HOL-Library.AList" "HOL-Library.Log_Nat"
begin

section \<open>Python values, exceptions and diagnostics\<close>

text \<open>
  The resource manager of \<^verbatim>\<open>src/anguis/resources.py\<close> is duck-typed: a resource value is an
  integer, a float or a string, and the code branches on which one it finds. The values are a
  datatype; a float is a binary64 number, kept as the rational it denotes, or one of the
  special values. Strings are lists of 8-bit characters (the ASCII part of Python's \<open>str\<close>).
  Booleans, containers as resource values, and the interpreter's limit on the number of
  digits \<open>int()\<close> reads are left out.
\<close>

datatype pyfloat = Finite rat | NegZero | PosInf | NegInf | NaN

datatype pyval = PyNone | PyInt int | PyFloat pyfloat | PyStr string

datatype pyerror =
    KeyError | ValueError | TypeError | NameError | IndexError
  | OverflowError | ZeroDivisionError | AttributeError

text \<open>
  The lines written by \<open>print\<close>. Each constructor stands for one f-string of the source and
  carries the values interpolated into it.
\<close>

datatype diag =
    NotNumberNorPreset pyval string    \<comment> \<open>line 55: value, resource\<close>
  | UsingDefault string string pyval   \<comment> \<open>line 59: resource, rule, value\<close>
  | InvalidOverride string string      \<comment> \<open>line 84: resource, rule\<close>
  | InvalidRuntime string pyval        \<comment> \<open>line 130: rule, runtime\<close>

section \<open>Strings and \<open>int()\<close>\<close>

definition is_digit :: "char \<Rightarrow> bool" where
  "is_digit c = (48 \<le> (of_char c :: nat) \<and> (of_char c :: nat) \<le> 57)"

definition digit_val :: "char \<Rightarrow> int" where
  "digit_val c = int (of_char c) - 48"

text \<open>The blanks that \<open>int()\<close> and \<open>float()\<close> skip around a number: tab to carriage return,
  and the space.\<close>

definition is_space :: "char \<Rightarrow> bool" where
  "is_space c = (let n = (of_char c :: nat) in (9 \<le> n \<and> n \<le> 13) \<or> n = 32)"

definition strip :: "string \<Rightarrow> string" where
  "strip s = rev (dropWhile is_space (rev (dropWhile is_space s)))"

text \<open>\<open>str.isdigit()\<close>: at least one character, all of them digits.\<close>

definition isdigit :: "string \<Rightarrow> bool" where
  "isdigit s = (s \<noteq> [] \<and> list_all is_digit s)"

text \<open>An underscore in a numeric literal stands between two digits. The function walks the
  text with the previous character at hand, as the interpreter's check does.\<close>

fun underscores_ok :: "char option \<Rightarrow> string \<Rightarrow> bool" where
  "underscores_ok prev [] = (prev \<noteq> Some CHR ''_'')"
| "underscores_ok prev (c # cs) =
     (if c = CHR ''_''
      then (case prev of None \<Rightarrow> False | Some p \<Rightarrow> is_digit p \<and> underscores_ok (Some c) cs)
      else (if prev = Some CHR ''_'' \<and> \<not> is_digit c then False else underscores_ok (Some c) cs))"

definition drop_underscores :: "string \<Rightarrow> string" where
  "drop_underscores s = filter (\<lambda>c. c \<noteq> CHR ''_'') s"

definition digits_val :: "string \<Rightarrow> int" where
  "digits_val s = foldl (\<lambda>acc c. 10 * acc + digit_val c) 0 s"

text \<open>A leading sign: the flag says whether it was a minus.\<close>

fun split_sign :: "string \<Rightarrow> bool \<times> string" where
  "split_sign [] = (False, [])"
| "split_sign (c # cs) =
     (if c = CHR ''-'' then (True, cs) else if c = CHR ''+'' then (False, cs) else (False, c # cs))"

text \<open>\<open>int(s)\<close> for a string, base ten: surrounding blanks, an optional sign, digits with
  single underscores between them; anything else is a \<open>ValueError\<close>.\<close>

definition int_of_str :: "string \<Rightarrow> pyerror + int" where
  "int_of_str s =
     (let (neg, body) = split_sign (strip s);
          ds = drop_underscores body
      in if isdigit ds \<and> underscores_ok None body
         then Inr (if neg then - digits_val ds else digits_val ds)
         else Inl ValueError)"

text \<open>\<open>int(x)\<close> of a float truncates towards zero; an infinity is an \<open>OverflowError\<close>, a NaN a
  \<open>ValueError\<close>.\<close>

fun int_of_float :: "pyfloat \<Rightarrow> pyerror + int" where
  "int_of_float (Finite q) = Inr (if 0 \<le> q then \<lfloor>q\<rfloor> else \<lceil>q\<rceil>)"
| "int_of_float NegZero = Inr 0"
| "int_of_float PosInf = Inl OverflowError"
| "int_of_float NegInf = Inl OverflowError"
| "int_of_float NaN = Inl ValueError"

fun py_int :: "pyval \<Rightarrow> pyerror + int" where
  "py_int (PyInt n) = Inr n"
| "py_int (PyFloat x) = int_of_float x"
| "py_int (PyStr s) = int_of_str s"
| "py_int PyNone = Inl TypeError"

section \<open>Binary64 arithmetic\<close>

text \<open>
  A Python \<open>float\<close> is an IEEE 754 binary64 number. Every operation computes the exact
  rational result and rounds it to the nearest representable number, ties to the even
  significand. \<open>bpow b e\<close> is \<open>b\<close> to an integer power, \<open>ilog b q\<close> the integer part of the
  logarithm of a positive rational (the exponent of its leading digit).
\<close>

definition bpow :: "nat \<Rightarrow> int \<Rightarrow> rat" where
  "bpow b e = (if 0 \<le> e then of_nat b ^ nat e else 1 / of_nat b ^ nat (- e))"

definition ilog :: "nat \<Rightarrow> rat \<Rightarrow> int" where
  "ilog b q =
     (let (n, d) = quotient_of q;
          e0 = int (floorlog b (nat n)) - int (floorlog b (nat d))
      in if bpow b e0 \<le> q then e0 else e0 - 1)"

definition round_half_even :: "rat \<Rightarrow> int" where
  "round_half_even q =
     (let f = \<lfloor>q\<rfloor>; r = q - of_int f
      in if r < 1 / 2 then f else if 1 / 2 < r then f + 1 else if even f then f else f + 1)"

text \<open>Rounding to 53 significant bits; below \<open>2\<^sup>-\<^sup>1\<^sup>0\<^sup>2\<^sup>2\<close> the spacing stays at \<open>2\<^sup>-\<^sup>1\<^sup>0\<^sup>7\<^sup>4\<close>
  (subnormal numbers). The exponent is not bounded above here; the callers test for
  overflow.\<close>

definition fl :: "rat \<Rightarrow> rat" where
  "fl q =
     (if q = 0 then 0
      else let p = max (ilog 2 \<bar>q\<bar> - 52) (- 1074)
           in of_int (round_half_even (q / bpow 2 p)) * bpow 2 p)"

definition overflows :: "rat \<Rightarrow> bool" where
  "overflows r = (2 ^ 1024 \<le> \<bar>r\<bar>)"

fun is_negative :: "pyfloat \<Rightarrow> bool" where
  "is_negative (Finite q) = (q < 0)"
| "is_negative NegZero = True"
| "is_negative NegInf = True"
| "is_negative PosInf = False"
| "is_negative NaN = False"

fun is_zero :: "pyfloat \<Rightarrow> bool" where
  "is_zero (Finite q) = (q = 0)"
| "is_zero NegZero = True"
| "is_zero x = False"

fun is_inf :: "pyfloat \<Rightarrow> bool" where
  "is_inf PosInf = True"
| "is_inf NegInf = True"
| "is_inf x = False"

fun fval :: "pyfloat \<Rightarrow> rat" where
  "fval (Finite q) = q"
| "fval x = 0"

definition signed_zero :: "bool \<Rightarrow> pyfloat" where
  "signed_zero neg = (if neg then NegZero else Finite 0)"

definition signed_inf :: "bool \<Rightarrow> pyfloat" where
  "signed_inf neg = (if neg then NegInf else PosInf)"

text \<open>The float for a non-zero exact result: rounded, an infinity on overflow, a signed
  zero on underflow.\<close>

definition float_of_rat :: "rat \<Rightarrow> pyfloat" where
  "float_of_rat q =
     (let r = fl q
      in if overflows r then signed_inf (q < 0)
         else if r = 0 then signed_zero (q < 0)
         else Finite r)"

definition fmul :: "pyfloat \<Rightarrow> pyfloat \<Rightarrow> pyfloat" where
  "fmul x y =
     (if x = NaN \<or> y = NaN then NaN
      else if is_inf x \<or> is_inf y
      then (if is_zero x \<or> is_zero y then NaN else signed_inf (is_negative x \<noteq> is_negative y))
      else if is_zero x \<or> is_zero y then signed_zero (is_negative x \<noteq> is_negative y)
      else float_of_rat (fval x * fval y))"

definition fadd :: "pyfloat \<Rightarrow> pyfloat \<Rightarrow> pyfloat" where
  "fadd x y =
     (if x = NaN \<or> y = NaN then NaN
      else if is_inf x \<and> is_inf y then (if x = y then x else NaN)
      else if is_inf x then x
      else if is_inf y then y
      else if fval x + fval y = 0 then signed_zero (x = NegZero \<and> y = NegZero)
      else float_of_rat (fval x + fval y))"

text \<open>\<open>float(n)\<close> of an integer, also the implicit conversion in mixed arithmetic: an
  integer beyond the largest float is an \<open>OverflowError\<close>.\<close>

definition float_of_int :: "int \<Rightarrow> pyerror + pyfloat" where
  "float_of_int n =
     (let r = fl (of_int n) in if overflows r then Inl OverflowError else Inr (Finite r))"

text \<open>\<open>a / b\<close> on two integers: the correctly rounded quotient.\<close>

definition int_truediv :: "int \<Rightarrow> int \<Rightarrow> pyerror + pyfloat" where
  "int_truediv a b =
     (if b = 0 then Inl ZeroDivisionError
      else if a = 0 then Inr (signed_zero (b < 0))
      else let r = fl (of_int a / of_int b)
           in if overflows r then Inl OverflowError
              else if r = 0 then Inr (signed_zero ((a < 0) \<noteq> (b < 0)))
              else Inr (Finite r))"

text \<open>
  \<open>x ** y\<close> for a float \<open>x\<close> and an exponent \<open>y\<close> that is a float with the integer value \<open>n\<close>,
  following the case analysis of the interpreter's \<open>float_pow\<close>. The last case is the call of
  the C library's \<open>pow\<close>. Where the exact power is a binary64 number, \<open>pow\<close> returns it and
  so does this definition. Where it is not, \<open>pow\<close> may be off by one unit in the last place
  from the correctly rounded power that this definition takes, so the definition stands for
  the code only in the first case; every theorem below about a power other than the zeroth
  is stated for the multiplier 1.5 and exponents up to 33, where \<open>1.5\<^sup>n = 3\<^sup>n / 2\<^sup>n\<close> is a
  binary64 number. A result beyond the largest float is an \<open>OverflowError\<close>.
\<close>

definition float_pow :: "pyfloat \<Rightarrow> int \<Rightarrow> pyerror + pyfloat" where
  "float_pow x n =
     (if n = 0 then Inr (Finite 1)
      else if x = NaN then Inr NaN
      else if is_inf x
      then Inr (if 0 < n then (if odd n then x else PosInf)
                else (if odd n then signed_zero (is_negative x) else Finite 0))
      else if is_zero x
      then (if n < 0 then Inl ZeroDivisionError
            else Inr (if odd n then x else Finite 0))
      else let a = \<bar>fval x\<bar>; negate = (is_negative x \<and> odd n)
           in if a = 1 then Inr (Finite (if negate then - 1 else 1))
              else let r = fl (if 0 \<le> n then a ^ nat n else 1 / a ^ nat (- n))
                   in if overflows r then Inl OverflowError
                      else if r = 0 then Inr (signed_zero negate)
                      else Inr (Finite (if negate then - r else r)))"

text \<open>The operators on values, for the operand types the manager meets: numbers. A
  string or \<open>None\<close> operand is a \<open>TypeError\<close>.\<close>

definition counts_as_number :: "pyval \<Rightarrow> bool" where
  "counts_as_number v = (case v of PyInt n \<Rightarrow> True | PyFloat x \<Rightarrow> True | _ \<Rightarrow> False)"

fun as_float :: "pyval \<Rightarrow> pyerror + pyfloat" where
  "as_float (PyInt n) = float_of_int n"
| "as_float (PyFloat x) = Inr x"
| "as_float v = Inl TypeError"

text \<open>\<open>m ** k\<close> with an integer exponent \<open>k\<close>.\<close>

definition py_pow :: "pyval \<Rightarrow> int \<Rightarrow> pyerror + pyval" where
  "py_pow m k =
     (case m of
        PyInt b \<Rightarrow>
          (if 0 \<le> k then Inr (PyInt (b ^ nat k))
           else (case float_of_int b of
                   Inl e \<Rightarrow> Inl e
                 | Inr x \<Rightarrow>
                     (case float_of_int k of
                        Inl e \<Rightarrow> Inl e
                      | Inr y \<Rightarrow> map_sum id PyFloat (float_pow x \<lfloor>fval y\<rfloor>))))
      | PyFloat x \<Rightarrow>
          (case float_of_int k of
             Inl e \<Rightarrow> Inl e
           | Inr y \<Rightarrow> map_sum id PyFloat (float_pow x \<lfloor>fval y\<rfloor>))
      | _ \<Rightarrow> Inl TypeError)"

text \<open>\<open>a * b\<close> and \<open>a + b\<close>: integer arithmetic on two integers, float arithmetic as soon as
  one operand is a float.\<close>

definition float_binop ::
  "(pyfloat \<Rightarrow> pyfloat \<Rightarrow> pyfloat) \<Rightarrow> pyval \<Rightarrow> pyval \<Rightarrow> pyerror + pyval" where
  "float_binop f a b =
     (case as_float a of
        Inl e \<Rightarrow> Inl e
      | Inr x \<Rightarrow> (case as_float b of Inl e \<Rightarrow> Inl e | Inr y \<Rightarrow> Inr (PyFloat (f x y))))"

fun py_mul :: "pyval \<Rightarrow> pyval \<Rightarrow> pyerror + pyval" where
  "py_mul (PyInt a) (PyInt b) = Inr (PyInt (a * b))"
| "py_mul a b = float_binop fmul a b"

fun py_add :: "pyval \<Rightarrow> pyval \<Rightarrow> pyerror + pyval" where
  "py_add (PyInt a) (PyInt b) = Inr (PyInt (a + b))"
| "py_add a b = float_binop fadd a b"

section \<open>\<open>float()\<close> of a string and \<open>repr\<close> of a float\<close>

definition lower :: "char \<Rightarrow> char" where
  "lower c = (let n = (of_char c :: nat) in if 65 \<le> n \<and> n \<le> 90 then char_of (n + 32) else c)"

text \<open>An unsigned decimal numeral: digits, an optional point and fraction, an optional
  exponent; at least one digit before the exponent and one in it.\<close>

definition parse_decimal :: "string \<Rightarrow> rat option" where
  "parse_decimal s =
     (let ip = takeWhile is_digit s;
          r1 = dropWhile is_digit s;
          r2 = (case r1 of [] \<Rightarrow> [] | c # cs \<Rightarrow> if c = CHR ''.'' then cs else r1);
          fp = (if r2 = r1 then [] else takeWhile is_digit r2);
          r3 = (if r2 = r1 then r1 else dropWhile is_digit r2);
          mant = of_int (digits_val (ip @ fp)) :: rat
      in if ip = [] \<and> fp = [] then None
         else case r3 of
                [] \<Rightarrow> Some (mant * bpow 10 (- int (length fp)))
              | c # cs \<Rightarrow>
                  if c = CHR ''e'' \<or> c = CHR ''E''
                  then (let (neg, ds) = split_sign cs
                        in if isdigit ds
                           then Some (mant * bpow 10
                                  ((if neg then - digits_val ds else digits_val ds) - int (length fp)))
                           else None)
                  else None)"

text \<open>\<open>float(s)\<close>: surrounding blanks, underscores between digits, an optional sign, then
  \<open>inf\<close>, \<open>infinity\<close> or \<open>nan\<close> in any case, or a decimal numeral, correctly rounded.\<close>

definition float_of_str :: "string \<Rightarrow> pyerror + pyfloat" where
  "float_of_str s =
     (let t = strip s;
          (neg, body) = split_sign (drop_underscores t);
          name = map lower body
      in if \<not> underscores_ok None t then Inl ValueError
         else if name = ''inf'' \<or> name = ''infinity'' then Inr (signed_inf neg)
         else if name = ''nan'' then Inr NaN
         else case parse_decimal body of
                None \<Rightarrow> Inl ValueError
              | Some q \<Rightarrow> Inr (if q = 0 then signed_zero neg
                               else float_of_rat (if neg then - q else q)))"

definition digit_char :: "int \<Rightarrow> char" where
  "digit_char d = char_of (48 + nat d)"

function dec_digits :: "int \<Rightarrow> string" where
  "dec_digits n = (if n < 10 then [digit_char n] else dec_digits (n div 10) @ [digit_char (n mod 10)])"
  by pat_completeness auto
termination
  by (relation "measure nat") auto

declare dec_digits.simps [simp del]

text \<open>
  The shortest decimal that reads back as the float \<open>a\<close> (positive): for 1, 2, ... digits,
  the two decimals of that length around \<open>a\<close> are tried, and of those that round to \<open>a\<close> the
  nearer is taken. Seventeen digits always suffice. The result \<open>(m, e)\<close> stands for
  \<open>m \<times> 10\<^sup>e\<close>.
\<close>

fun shortest_digits :: "nat \<Rightarrow> nat \<Rightarrow> rat \<Rightarrow> int \<times> int" where
  "shortest_digits 0 n a =
     (let e = ilog 10 a - int n + 1 in (round_half_even (a / bpow 10 e), e))"
| "shortest_digits (Suc k) n a =
     (let e = ilog 10 a - int n + 1;
          u = bpow 10 e;
          lo = \<lfloor>a / u\<rfloor>;
          hi = lo + 1;
          oklo = (fl (of_int lo * u) = a);
          okhi = (fl (of_int hi * u) = a);
          dlo = a - of_int lo * u;
          dhi = of_int hi * u - a
      in if oklo \<and> (\<not> okhi \<or> dlo < dhi \<or> (dlo = dhi \<and> even lo)) then (lo, e)
         else if okhi then (hi, e)
         else shortest_digits k (Suc n) a)"

text \<open>\<open>repr\<close> of a positive finite float: fixed notation while the decimal point lies within
  \<open>-4 < decpt \<le> 16\<close>, scientific notation with a two-digit exponent otherwise.\<close>

definition repr_pos :: "rat \<Rightarrow> string" where
  "repr_pos a =
     (let (m, e) = shortest_digits 16 1 a;
          all_digits = dec_digits m;
          ds = rev (dropWhile (\<lambda>c. c = CHR ''0'') (rev all_digits));
          n = int (length ds);
          decpt = int (length all_digits) + e
      in if - 4 < decpt \<and> decpt \<le> 16
         then (if decpt \<le> 0 then ''0.'' @ replicate (nat (- decpt)) CHR ''0'' @ ds
               else if n \<le> decpt then ds @ replicate (nat (decpt - n)) CHR ''0'' @ ''.0''
               else take (nat decpt) ds @ ''.'' @ drop (nat decpt) ds)
         else (let x = decpt - 1;
                   xs = dec_digits \<bar>x\<bar>
               in take 1 ds @ (if 1 < n then ''.'' @ drop 1 ds else [])
                  @ ''e'' @ (if x < 0 then ''-'' else ''+'')
                  @ (if length xs < 2 then ''0'' @ xs else xs)))"

fun float_repr :: "pyfloat \<Rightarrow> string" where
  "float_repr (Finite q) =
     (if q = 0 then ''0.0'' else if q < 0 then ''-'' @ repr_pos (- q) else repr_pos q)"
| "float_repr NegZero = ''-0.0''"
| "float_repr PosInf = ''inf''"
| "float_repr NegInf = ''-inf''"
| "float_repr NaN = ''nan''"

section \<open>Dictionaries\<close>

text \<open>
  A \<open>dict\<close> with string keys is an association list in insertion order; \<open>AList.update\<close>
  replaces the value of a key in place or appends a new key, as item assignment does.
\<close>

type_synonym 'v pydict = "(string \<times> 'v) list"
type_synonym resdict = "pyval pydict pydict"
type_synonym presetdict = "pyval pydict pydict"

definition contains :: "'v pydict \<Rightarrow> string \<Rightarrow> bool" where
  "contains d k = (map_of d k \<noteq> None)"

definition getitem :: "'v pydict \<Rightarrow> string \<Rightarrow> pyerror + 'v" where
  "getitem d k = (case map_of d k of None \<Rightarrow> Inl KeyError | Some v \<Rightarrow> Inr v)"

text \<open>\<open>d[rule][resource]\<close> on a plain dict of dicts.\<close>

definition getitem2 :: "resdict \<Rightarrow> string \<Rightarrow> string \<Rightarrow> pyerror + pyval" where
  "getitem2 d rule resource =
     (case getitem d rule of Inl e \<Rightarrow> Inl e | Inr inner \<Rightarrow> getitem inner resource)"

text \<open>
  \<open>self.resources\<close> is a \<open>defaultdict(lambda: defaultdict(int))\<close>. Reading a missing rule
  inserts an empty inner dictionary, reading a missing key of an inner dictionary inserts
  \<open>int() = 0\<close>; neither read raises \<open>KeyError\<close>.
\<close>

definition dd_inner :: "resdict \<Rightarrow> string \<Rightarrow> pyval pydict" where
  "dd_inner r rule = (case map_of r rule of None \<Rightarrow> [] | Some inner \<Rightarrow> inner)"

definition dd_getitem2 :: "resdict \<Rightarrow> string \<Rightarrow> string \<Rightarrow> pyval \<times> resdict" where
  "dd_getitem2 r rule key =
     (let inner = dd_inner r rule
      in case map_of inner key of
           None \<Rightarrow> (PyInt 0, AList.update rule (AList.update key (PyInt 0) inner) r)
         | Some v \<Rightarrow> (v, AList.update rule inner r))"

definition dd_setitem2 :: "resdict \<Rightarrow> string \<Rightarrow> string \<Rightarrow> pyval \<Rightarrow> resdict" where
  "dd_setitem2 r rule key v = AList.update rule (AList.update key v (dd_inner r rule)) r"

section \<open>The resource manager\<close>

record manager =
  default_str :: string
  threads_str :: string
  memory_str :: string
  runtime_str :: string
  mem_attempt_multiplier :: pyval
  runtime_attempt_multiplier :: pyval
  defined_resources :: resdict
  presets :: "presetdict option"
  resources :: resdict

text \<open>What a method call leaves behind: the lines printed, the value returned or the
  exception raised, and the manager afterwards.\<close>

record 'a outcome =
  printed :: "diag list"
  result :: "pyerror + 'a"
  state :: manager

subsection \<open>Construction\<close>

record init_args =
  resources_arg :: "resdict option"
  presets_arg :: "presetdict option"
  override_arg :: "resdict option"
  mem_attempt_multiplier_arg :: pyval
  runtime_attempt_multiplier_arg :: pyval
  default_str_arg :: string
  threads_str_arg :: string
  memory_str_arg :: string
  runtime_str_arg :: string

text \<open>The defaults of the parameters of \<open>__init__\<close> (lines 18 to 20).\<close>

definition default_args :: init_args where
  "default_args =
     \<lparr> resources_arg = None, presets_arg = None, override_arg = None,
       mem_attempt_multiplier_arg = PyFloat (Finite (3 / 2)),
       runtime_attempt_multiplier_arg = PyInt 1,
       default_str_arg = ''default'', threads_str_arg = ''threads'',
       memory_str_arg = ''mem_mb'', runtime_str_arg = ''runtime_s'' \<rparr>"

text \<open>The class attribute \<open>default_resources\<close> (lines 14 to 16).\<close>

definition default_resources :: "pyval pydict" where
  "default_resources = [(''threads'', PyInt 1), (''mem_mb'', PyInt 2000), (''runtime_s'', PyInt 3600)]"

text \<open>The dictionary display of lines 36 to 38: the keys are the configured names, a later
  key overwrites an equal earlier one.\<close>

definition injected_default :: "init_args \<Rightarrow> pyval pydict" where
  "injected_default a =
     AList.update (runtime_str_arg a) (PyInt 3600)
       (AList.update (memory_str_arg a) (PyInt 2000)
          (AList.update (threads_str_arg a) (PyInt 1) []))"

text \<open>
  \<open>__init__\<close> (lines 18 to 39). \<open>self.defined_resources\<close> is the very object the caller passed
  as \<open>resources\<close>, so the assignment of line 36 writes into the caller's dictionary. The
  function returns the new manager together with the caller's \<open>resources\<close> object as it is
  after the call (\<open>None\<close> when the caller passed none). The arguments \<open>presets\<close> and
  \<open>override\<close> are not read.
\<close>

definition init :: "init_args \<Rightarrow> manager \<times> resdict option" where
  "init a =
     (let d0 = (case resources_arg a of None \<Rightarrow> [] | Some d \<Rightarrow> d);
          d1 = (if \<not> contains d0 (default_str_arg a)
                then AList.update (default_str_arg a) (injected_default a) d0
                else d0);
          self = \<lparr> default_str = default_str_arg a,
                   threads_str = threads_str_arg a,
                   memory_str = memory_str_arg a,
                   runtime_str = runtime_str_arg a,
                   mem_attempt_multiplier = mem_attempt_multiplier_arg a,
                   runtime_attempt_multiplier = runtime_attempt_multiplier_arg a,
                   defined_resources = d1,
                   presets = None,
                   resources = [] \<rparr>
      in (self, case resources_arg a of None \<Rightarrow> None | Some _ \<Rightarrow> Some d1))"

subsection \<open>\<open>get_resource_value\<close>\<close>

text \<open>\<open>self.presets[resource][value]\<close>: subscripting \<open>None\<close> is a \<open>TypeError\<close>; a missing
  table or name is a \<open>KeyError\<close>.\<close>

fun presets_getitem2 :: "presetdict option \<Rightarrow> string \<Rightarrow> pyval \<Rightarrow> pyerror + pyval" where
  "presets_getitem2 None resource name = Inl TypeError"
| "presets_getitem2 (Some p) resource (PyStr n) =
     (case getitem p resource of Inl e \<Rightarrow> Inl e | Inr table \<Rightarrow> getitem table n)"
| "presets_getitem2 (Some p) resource v =
     (case getitem p resource of Inl e \<Rightarrow> Inl e | Inr table \<Rightarrow> Inl KeyError)"

text \<open>Line 60, reached with the resolved value; the method has no \<open>return\<close> statement, so
  the call evaluates to \<open>None\<close>.\<close>

definition store_value :: "manager \<Rightarrow> diag list \<Rightarrow> string \<Rightarrow> string \<Rightarrow> pyval \<Rightarrow> pyval outcome" where
  "store_value s out rule resource v =
     \<lparr> printed = out, result = Inr PyNone,
       state = s\<lparr>resources := dd_setitem2 (resources s) rule resource v\<rparr> \<rparr>"

definition raise :: "manager \<Rightarrow> diag list \<Rightarrow> pyerror \<Rightarrow> 'a outcome" where
  "raise s out e = \<lparr> printed = out, result = Inl e, state = s \<rparr>"

text \<open>The handler of lines 57 to 59, followed by line 60. A \<open>KeyError\<close> raised inside the
  handler is not caught again.\<close>

definition use_default :: "manager \<Rightarrow> string \<Rightarrow> string \<Rightarrow> pyval outcome" where
  "use_default s rule resource =
     (case getitem2 (defined_resources s) (default_str s) resource of
        Inl e \<Rightarrow> raise s [] e
      | Inr v \<Rightarrow> store_value s [UsingDefault resource rule v] rule resource v)"

text \<open>
  Lines 41 to 60. The outer \<open>try\<close> catches \<open>KeyError\<close> only, the one around \<open>int(value)\<close>
  catches \<open>ValueError\<close> only, and the innermost one, around the preset lookup, catches
  \<open>ValueError\<close> only: it prints and re-raises. Every other exception leaves the method.
\<close>

definition get_resource_value :: "manager \<Rightarrow> string \<Rightarrow> string \<Rightarrow> pyval outcome" where
  "get_resource_value s rule resource =
     (case getitem2 (defined_resources s) rule resource of
        Inl KeyError \<Rightarrow> use_default s rule resource
      | Inl e \<Rightarrow> raise s [] e
      | Inr value \<Rightarrow>
          (case py_int value of
             Inr n \<Rightarrow> store_value s [] rule resource (PyInt n)
           | Inl ValueError \<Rightarrow>
               (case presets_getitem2 (presets s) resource value of
                  Inr v \<Rightarrow> store_value s [] rule resource v
                | Inl ValueError \<Rightarrow> raise s [NotNumberNorPreset value resource] ValueError
                | Inl KeyError \<Rightarrow> use_default s rule resource
                | Inl e \<Rightarrow> raise s [] e)
           | Inl KeyError \<Rightarrow> use_default s rule resource
           | Inl e \<Rightarrow> raise s [] e))"

subsection \<open>\<open>allocate_resources\<close>\<close>

text \<open>
  Lines 62 to 84. The first statement (line 67) builds a dictionary display whose first value
  is the call \<open>get_resource_value(...)\<close>, written without \<open>self.\<close>. The name is looked up among
  the local names of the method (\<open>self\<close>), the names bound at module level
  (\<open>collections\<close>, \<open>re\<close>, \<open>yaml\<close>, \<open>SnakemakeResourcesManager\<close>) and the builtins; the
  method is bound in none of them, so evaluating the name raises \<open>NameError\<close> before
  anything is printed or assigned. The rest of the body is never reached.
\<close>

definition allocate_resources :: "manager \<Rightarrow> pyval outcome" where
  "allocate_resources s = raise s [] NameError"

text \<open>The value a getter reads from \<open>self.resources[rule][key]\<close>: the stored one, or 0 when
  the entry is missing.\<close>

definition resolved :: "manager \<Rightarrow> string \<Rightarrow> string \<Rightarrow> pyval" where
  "resolved s rule key = fst (dd_getitem2 (resources s) rule key)"

subsection \<open>\<open>get_threads\<close>\<close>

text \<open>Lines 86 to 94. The read goes through the \<open>defaultdict\<close>, so the \<open>except KeyError\<close>
  branch has nothing to catch; the missing entries are inserted.\<close>

definition get_threads :: "manager \<Rightarrow> string \<Rightarrow> pyval outcome" where
  "get_threads s rule =
     (let (threads, r) = dd_getitem2 (resources s) rule (threads_str s)
      in \<lparr> printed = [], result = Inr threads, state = s\<lparr>resources := r\<rparr> \<rparr>)"

subsection \<open>\<open>get_mem\<close>\<close>

text \<open>The scaling of lines 106 and 108: \<open>int(base * (multiplier ** (attempt - 1)))\<close>.\<close>

definition scale_mem :: "pyval \<Rightarrow> pyval \<Rightarrow> int \<Rightarrow> pyerror + pyval" where
  "scale_mem multiplier base attempt =
     (case py_pow multiplier (attempt - 1) of
        Inl e \<Rightarrow> Inl e
      | Inr factor \<Rightarrow>
          (case py_mul base factor of
             Inl e \<Rightarrow> Inl e
           | Inr v \<Rightarrow> map_sum id PyInt (py_int v)))"

text \<open>Lines 110 and 111: the text before the last character is read as a float, scaled, and
  formatted back in front of the suffix.\<close>

definition scale_suffixed :: "pyval \<Rightarrow> string \<Rightarrow> int \<Rightarrow> pyerror + pyval" where
  "scale_suffixed multiplier mem attempt =
     (case float_of_str (butlast mem) of
        Inl e \<Rightarrow> Inl e
      | Inr x \<Rightarrow>
          (case py_pow multiplier (attempt - 1) of
             Inl e \<Rightarrow> Inl e
           | Inr factor \<Rightarrow>
               (case py_mul (PyFloat x) factor of
                  Inr (PyFloat tmp) \<Rightarrow> Inr (PyStr (float_repr tmp @ [last mem]))
                | Inr v \<Rightarrow> Inl TypeError
                | Inl e \<Rightarrow> Inl e)))"

text \<open>
  Lines 96 to 112, after the read of \<open>self.resources\<close>: a number is scaled and truncated by
  \<open>int()\<close>; a string of digits likewise; a string ending in \<open>G\<close>, \<open>M\<close> or \<open>K\<close> is scaled as a
  float and keeps its suffix; any other string is returned as it is. The empty string has
  no last character (\<open>IndexError\<close>), \<open>None\<close> has no method \<open>isdigit\<close> (\<open>AttributeError\<close>).
\<close>

definition mem_value :: "pyval \<Rightarrow> pyval \<Rightarrow> int \<Rightarrow> pyerror + pyval" where
  "mem_value multiplier mem_mb attempt =
     (case mem_mb of
        PyInt n \<Rightarrow> scale_mem multiplier mem_mb attempt
      | PyFloat x \<Rightarrow> scale_mem multiplier mem_mb attempt
      | PyNone \<Rightarrow> Inl AttributeError
      | PyStr s \<Rightarrow>
          if isdigit s then
            (case int_of_str s of
               Inl e \<Rightarrow> Inl e
             | Inr n \<Rightarrow> scale_mem multiplier (PyInt n) attempt)
          else if s = [] then Inl IndexError
          else if last s \<in> set ''GMK'' then scale_suffixed multiplier s attempt
          else Inr mem_mb)"

definition get_mem :: "manager \<Rightarrow> string \<Rightarrow> int \<Rightarrow> pyval outcome" where
  "get_mem s rule attempt =
     (let (mem_mb, r) = dd_getitem2 (resources s) rule (memory_str s)
      in \<lparr> printed = [],
           result = mem_value (mem_attempt_multiplier s) mem_mb attempt,
           state = s\<lparr>resources := r\<rparr> \<rparr>)"

subsection \<open>\<open>get_runtime\<close>\<close>

text \<open>\<open>re.split(':|-', runtime)\<close>: the pieces between the separators, empty ones included.\<close>

fun split_fields :: "string \<Rightarrow> string list" where
  "split_fields [] = [[]]"
| "split_fields (c # cs) =
     (if c = CHR '':'' \<or> c = CHR ''-'' then [] # split_fields cs
      else (case split_fields cs of f # fs \<Rightarrow> (c # f) # fs | [] \<Rightarrow> [[c]]))"

text \<open>
  Lines 127 and 128: the fields are converted by \<open>int\<close> and unpacked into exactly four
  names. Too few fields, too many, or a field that is not an integer all raise
  \<open>ValueError\<close>.
\<close>

definition parse_runtime :: "string \<Rightarrow> pyerror + int" where
  "parse_runtime runtime =
     (case split_fields runtime of
        [fd, fh, fm, fs] \<Rightarrow>
          (case (int_of_str fd, int_of_str fh, int_of_str fm, int_of_str fs) of
             (Inr d, Inr h, Inr m, Inr s) \<Rightarrow> Inr (((((d * 24) + h) * 60) + m) * 60 + s)
           | _ \<Rightarrow> Inl ValueError)
      | _ \<Rightarrow> Inl ValueError)"

text \<open>
  What line 127 accepts: the text splits at \<open>:\<close> and \<open>-\<close> into exactly four fields and
  \<open>int\<close> reads each of them.
\<close>

definition int_accepts :: "string \<Rightarrow> bool" where
  "int_accepts f = (case int_of_str f of Inr n \<Rightarrow> True | Inl e \<Rightarrow> False)"

definition four_int_fields :: "string \<Rightarrow> bool" where
  "four_int_fields runtime =
     (length (split_fields runtime) = 4 \<and> list_all int_accepts (split_fields runtime))"

text \<open>Line 132: \<open>int(time * (1 + (attempt - 1) / 2))\<close>, where \<open>/\<close> is the true division of
  two integers and gives a float.\<close>

definition scale_runtime :: "int \<Rightarrow> int \<Rightarrow> pyerror + pyval" where
  "scale_runtime time attempt =
     (case int_truediv (attempt - 1) 2 of
        Inl e \<Rightarrow> Inl e
      | Inr h \<Rightarrow>
          (case py_add (PyInt 1) (PyFloat h) of
             Inl e \<Rightarrow> Inl e
           | Inr factor \<Rightarrow>
               (case py_mul (PyInt time) factor of
                  Inl e \<Rightarrow> Inl e
                | Inr v \<Rightarrow> map_sum id PyInt (py_int v))))"

text \<open>
  Lines 114 to 133. An integer is taken as seconds. Anything else goes to \<open>re.split\<close>, which
  raises \<open>TypeError\<close> for a value that is not a string; the \<open>ValueError\<close> of a string that
  does not parse is caught, a line is printed and 3600 is used.
\<close>

definition get_runtime :: "manager \<Rightarrow> string \<Rightarrow> int \<Rightarrow> pyval outcome" where
  "get_runtime s rule attempt =
     (let (runtime, r) = dd_getitem2 (resources s) rule (runtime_str s);
          s' = s\<lparr>resources := r\<rparr>
      in case runtime of
           PyInt time \<Rightarrow> \<lparr> printed = [], result = scale_runtime time attempt, state = s' \<rparr>
         | PyStr txt \<Rightarrow>
             (case parse_runtime txt of
                Inr time \<Rightarrow> \<lparr> printed = [], result = scale_runtime time attempt, state = s' \<rparr>
              | Inl ValueError \<Rightarrow>
                  \<lparr> printed = [InvalidRuntime rule runtime],
                    result = scale_runtime 3600 attempt, state = s' \<rparr>
              | Inl e \<Rightarrow> raise s' [] e)
         | _ \<Rightarrow> raise s' [] TypeError)"

subsection \<open>A caller's session\<close>

text \<open>A manager is built from the arguments, then \<open>get_resource_value\<close> is called for each
  (rule, resource) pair in turn. This is how values reach \<open>self.resources\<close>.\<close>

definition resolved_manager :: "init_args \<Rightarrow> (string \<times> string) list \<Rightarrow> manager" where
  "resolved_manager a queries =
     foldl (\<lambda>m (rule, resource). state (get_resource_value m rule resource)) (fst (init a)) queries"

section \<open>Exact binary64 results\<close>

text \<open>
  Rounding leaves a number \<open>m \<times> 2\<^sup>e\<close> with \<open>|m| < 2\<^sup>5\<^sup>3\<close> unchanged. The lemmas of this section
  give the float operations on such numbers in closed form; the theorems about the getters
  are stated in that range.
\<close>

lemma bpow_powi: "bpow b e = (of_nat b :: rat) powi e"
  by (simp add: bpow_def power_int_def power_inverse inverse_eq_divide)
   (metis divide_inverse inverse_eq_divide mult.left_neutral power_inverse power_one_over)

lemma quotient_of_pos:
  assumes "0 < q" "quotient_of q = (n, d)"
  shows "0 < n" "0 < d" "q = of_int n / of_int d"
  using assms quotient_of_denom_pos[of q n d] quotient_of_div[of q n d]
  by (auto simp: zero_less_divide_iff)

lemma ilog2_lower:
  assumes "0 < q"
  shows "bpow 2 (ilog 2 q) \<le> q"
proof -
  obtain n d where nd: "quotient_of q = (n, d)" by (cases "quotient_of q")
  from quotient_of_pos[OF assms nd] have n: "0 < n" and d: "0 < d" and q: "q = of_int n / of_int d" by auto
  define fn where "fn = floorlog 2 (nat n)"
  define fd where "fd = floorlog 2 (nat d)"
  have bn: "2 ^ (fn - 1) \<le> nat n" using floorlog_bounds[of "nat n" 2] n by (simp add: fn_def)
  have bd: "nat d < 2 ^ fd" using floorlog_bounds[of "nat d" 2] d by (simp add: fd_def)
  have fn1: "1 \<le> fn" using n by (simp add: fn_def floorlog_def)
  have "bpow 2 (int fn - int fd - 1) \<le> q"
  proof -
    have e: "int fn - int fd - 1 = int (fn - 1) - int fd" using fn1 by simp
    have "(2::rat) powi (int (fn - 1) - int fd) = 2 ^ (fn - 1) / 2 ^ fd"
      by (simp add: power_int_diff)
    also have "\<dots> \<le> of_int n / of_int d"
    proof -
      have 1: "(2::rat) ^ (fn - 1) \<le> of_int n"
      proof -
        have "(of_nat (2 ^ (fn - 1)) :: rat) \<le> of_nat (nat n)" using bn of_nat_le_iff by blast
        then show ?thesis using n by simp
      qed
      have 2: "(of_int d :: rat) \<le> 2 ^ fd"
      proof -
        have "(of_nat (nat d) :: rat) \<le> of_nat (2 ^ fd)" using bd by (metis less_imp_le of_nat_le_iff)
        then show ?thesis using d by simp
      qed
      have dpos: "(0::rat) < of_int d" using d by simp
      have npos: "(0::rat) \<le> of_int n" using n by simp
      show ?thesis using 1 2 dpos npos by (intro frac_le) auto
    qed
    finally show ?thesis unfolding bpow_powi e q by simp
  qed
  then show ?thesis
    unfolding ilog_def nd fn_def fd_def by (simp add: Let_def)
qed

lemma round_half_even_of_int: "round_half_even (of_int k) = k"
  by (simp add: round_half_even_def)

lemma fl_exact:
  assumes m: "\<bar>m\<bar> < 2 ^ 53" and e: "- 1074 \<le> e"
  shows "fl (of_int m * bpow 2 e) = of_int m * bpow 2 e"
proof (cases "m = 0")
  case True
  then show ?thesis by (simp add: fl_def)
next
  case False
  define q where "q = (of_int m :: rat) * bpow 2 e"
  have bp: "0 < bpow 2 e" by (simp add: bpow_powi)
  have q0: "q \<noteq> 0" using False bp by (simp add: q_def)
  have aq: "\<bar>q\<bar> = of_int \<bar>m\<bar> * bpow 2 e" using bp by (simp add: q_def abs_mult)
  define L where "L = ilog 2 \<bar>q\<bar>"
  have lo: "bpow 2 L \<le> \<bar>q\<bar>" unfolding L_def using q0 by (intro ilog2_lower) simp
  have "(of_int \<bar>m\<bar> :: rat) < 2 ^ 53" using m by (metis of_int_less_iff of_int_numeral of_int_power)
  then have "\<bar>q\<bar> < 2 ^ 53 * bpow 2 e" unfolding aq using bp by simp
  also have "\<dots> = bpow 2 (53 + e)" by (simp add: bpow_powi power_int_add)
  finally have "bpow 2 L < bpow 2 (53 + e)" using lo by simp
  then have L: "L < 53 + e"
    using power_int_increasing[of "53 + e" L "2::rat"] by (auto simp: bpow_powi not_less[symmetric])
  define p where "p = max (L - 52) (- 1074)"
  have pe: "p \<le> e" using L e by (simp add: p_def)
  have "q / bpow 2 p = of_int m * bpow 2 (e - p)"
    by (simp add: q_def bpow_powi power_int_diff)
  also have "\<dots> = of_int (m * 2 ^ nat (e - p))"
    using pe by (simp add: bpow_def)
  finally have r: "round_half_even (q / bpow 2 p) = m * 2 ^ nat (e - p)"
    by (simp only: round_half_even_of_int)
  have "fl q = of_int (m * 2 ^ nat (e - p)) * bpow 2 p"
    using q0 r by (simp add: fl_def Let_def L_def p_def)
  also have "\<dots> = of_int m * (bpow 2 (e - p) * bpow 2 p)"
    using pe by (simp add: bpow_def)
  also have "bpow 2 (e - p) * bpow 2 p = bpow 2 e"
    by (simp add: bpow_powi power_int_diff)
  finally show ?thesis by (simp add: q_def)
qed

lemma fl_of_int: "\<bar>m\<bar> < 2 ^ 53 \<Longrightarrow> fl (of_int m) = of_int m"
  using fl_exact[of m 0] by (simp add: bpow_def)

lemma fl_dyadic: "\<bar>m\<bar> < 2 ^ 53 \<Longrightarrow> k \<le> 1074 \<Longrightarrow> fl (of_int m / 2 ^ k) = of_int m / 2 ^ k"
  using fl_exact[of m "- int k"] by (cases "k = 0") (simp_all add: bpow_def)

lemma not_overflows: "\<bar>r\<bar> < 2 ^ 53 \<Longrightarrow> \<not> overflows r"
proof -
  assume "\<bar>r\<bar> < 2 ^ 53"
  moreover have "(2::rat) ^ 53 \<le> 2 ^ 1024" by (rule power_increasing) auto
  ultimately show ?thesis unfolding overflows_def by linarith
qed

lemma abs_dyadic_less:
  assumes "\<bar>m\<bar> < (2::int) ^ 53"
  shows "\<bar>(of_int m :: rat) / 2 ^ k\<bar> < 2 ^ 53"
proof -
  have a: "\<bar>(of_int m :: rat)\<bar> < 2 ^ 53"
    using assms by (metis of_int_abs of_int_less_iff of_int_numeral of_int_power)
  have "\<bar>(of_int m :: rat) / 2 ^ k\<bar> = \<bar>of_int m\<bar> / 2 ^ k" by (simp add: abs_divide)
  also have "\<dots> \<le> \<bar>of_int m\<bar> / 1"
    by (intro divide_left_mono) (auto simp: one_le_power)
  finally show ?thesis using a by simp
qed

lemma float_of_rat_dyadic:
  assumes "m \<noteq> 0" "\<bar>m\<bar> < 2 ^ 53" "k \<le> 1074"
  shows "float_of_rat (of_int m / 2 ^ k) = Finite (of_int m / 2 ^ k)"
  using assms fl_dyadic[of m k] not_overflows[OF abs_dyadic_less[of m k]]
  by (simp add: float_of_rat_def Let_def)

lemma float_of_int_exact: "\<bar>n\<bar> < 2 ^ 53 \<Longrightarrow> float_of_int n = Inr (Finite (of_int n))"
  using fl_of_int[of n] not_overflows[OF abs_dyadic_less[of n 0]]
  by (simp add: float_of_int_def Let_def)

lemma fmul_finite:
  assumes "x \<noteq> 0" "y \<noteq> 0" "fl (x * y) = x * y" "\<not> overflows (x * y)"
  shows "fmul (Finite x) (Finite y) = Finite (x * y)"
  using assms(1,2) by (simp add: fmul_def float_of_rat_def assms(3,4))

lemma fadd_finite:
  assumes "x + y \<noteq> 0" "fl (x + y) = x + y" "\<not> overflows (x + y)"
  shows "fadd (Finite x) (Finite y) = Finite (x + y)"
  using assms(1) by (simp add: fadd_def float_of_rat_def assms(2,3))

lemma int_truediv_half:
  assumes "\<bar>n\<bar> < 2 ^ 53"
  shows "int_truediv n 2 = Inr (Finite (of_int n / 2))"
proof (cases "n = 0")
  case True
  then show ?thesis by (simp add: int_truediv_def signed_zero_def)
next
  case False
  have 1: "fl (of_int n / 2) = of_int n / 2" using fl_dyadic[of n 1] assms by simp
  have 2: "\<not> overflows (of_int n / 2)"
    using not_overflows[OF abs_dyadic_less[of n 1]] assms by simp
  show ?thesis using False by (simp add: int_truediv_def 1 2)
qed

lemma float_one: "float_of_int 1 = Inr (Finite 1)"
  using float_of_int_exact[of 1] by simp

lemma add_one_half:
  assumes "n + 2 \<noteq> 0" "\<bar>n + 2\<bar> < 2 ^ 53"
  shows "float_binop fadd (PyInt 1) (PyFloat (Finite (of_int n / 2)))
         = Inr (PyFloat (Finite (of_int (n + 2) / 2)))"
proof -
  have s: "1 + (of_int n :: rat) / 2 = of_int (n + 2) / 2" by (simp add: field_simps)
  have nz: "(of_int (n + 2) :: rat) / 2 \<noteq> 0"
    using assms(1) by (metis divide_eq_0_iff of_int_eq_0_iff zero_neq_numeral)
  have 1: "fl (of_int (n + 2) / 2) = of_int (n + 2) / 2"
    using fl_dyadic[of "n + 2" 1] assms by simp
  have 2: "\<not> overflows (of_int (n + 2) / 2)"
    using not_overflows[OF abs_dyadic_less[of "n + 2" 1]] assms by simp
  have "fadd (Finite 1) (Finite (of_int n / 2)) = Finite (1 + of_int n / 2)"
    by (rule fadd_finite) (simp_all only: s nz 1 2 not_False_eq_True)
  then show ?thesis by (simp only: float_binop_def as_float.simps float_one sum.case s)
qed

lemma mul_int_half:
  assumes "\<bar>t\<bar> < 2 ^ 53" "\<bar>t * k\<bar> < 2 ^ 53" "0 < k"
  shows "float_binop fmul (PyInt t) (PyFloat (Finite (of_int k / 2)))
         = Inr (PyFloat (Finite (of_int (t * k) / 2)))"
proof (cases "t = 0")
  case True
  then show ?thesis using float_of_int_exact[of 0] assms(3)
    by (simp add: float_binop_def fmul_def signed_zero_def)
next
  case False
  have p: "(of_int t :: rat) * (of_int k / 2) = of_int (t * k) / 2" by simp
  have tk: "t * k \<noteq> 0" using False assms(3) by simp
  have 1: "fl (of_int (t * k) / 2) = of_int (t * k) / 2"
    using fl_dyadic[of "t * k" 1] assms by simp
  have 2: "\<not> overflows (of_int (t * k) / 2)"
    using not_overflows[OF abs_dyadic_less[of "t * k" 1]] assms by simp
  have nzt: "(of_int t :: rat) \<noteq> 0" using False by simp
  have nzk: "(of_int k :: rat) / 2 \<noteq> 0" using assms(3) by simp
  have "fmul (Finite (of_int t)) (Finite (of_int k / 2)) = Finite (of_int t * (of_int k / 2))"
    by (rule fmul_finite) (simp_all only: p nzt nzk 1 2 not_False_eq_True)
  then show ?thesis
    by (simp only: float_binop_def as_float.simps float_of_int_exact[OF assms(1)] sum.case p)
qed

lemma trunc_half_nonneg: "0 \<le> n \<Longrightarrow> int_of_float (Finite (of_int n / 2)) = Inr (n div 2)"
proof -
  assume "0 \<le> n"
  then have "(0::rat) \<le> of_int n / 2" by simp
  moreover have "\<lfloor>(of_int n :: rat) / 2\<rfloor> = n div 2"
    using floor_divide_of_int_eq[of n 2, where ?'a = rat] by simp
  ultimately show ?thesis by simp
qed

lemma scale_runtime_first:
  assumes "\<bar>t\<bar> < 2 ^ 53"
  shows "scale_runtime t 1 = Inr (PyInt t)"
proof -
  have h: "int_truediv 0 2 = Inr (Finite 0)" by (simp add: int_truediv_def signed_zero_def)
  have "float_of_rat 1 = Finite 1" using float_of_rat_dyadic[of 1 0] by simp
  then have f: "float_binop fadd (PyInt 1) (PyFloat (Finite 0)) = Inr (PyFloat (Finite 1))"
    by (simp add: float_binop_def float_one fadd_def)
  have m: "float_binop fmul (PyInt t) (PyFloat (Finite 1)) = Inr (PyFloat (Finite (of_int t)))"
    using float_of_int_exact[OF assms] float_of_rat_dyadic[of t 0] assms
    by (simp add: float_binop_def fmul_def signed_zero_def)
  show ?thesis by (simp add: scale_runtime_def h f m)
qed

lemma scale_runtime_exact:
  assumes a: "1 \<le> a" and a1: "a + 1 < 2 ^ 53" and t0: "0 \<le> t" and b: "t * (a + 1) < 2 ^ 53"
  shows "scale_runtime t a = Inr (PyInt (t * (a + 1) div 2))"
proof -
  have a1': "\<bar>a - 1 + 2\<bar> < 2 ^ 53" and a2: "\<bar>a - 1\<bar> < 2 ^ 53" and a3: "a - 1 + 2 \<noteq> 0"
    using a a1 by auto
  have "t * 1 \<le> t * (a + 1)" using a t0 by (intro mult_left_mono) auto
  then have t53: "\<bar>t\<bar> < 2 ^ 53" using b t0 by simp
  have tb: "\<bar>t * (a + 1)\<bar> < 2 ^ 53" "0 \<le> t * (a + 1)" using b a t0 by simp_all
  have e: "a - 1 + 2 = a + 1" by simp
  note h = int_truediv_half[OF a2]
  note f = add_one_half[OF a3 a1', unfolded e]
  have k: "0 < a + 1" using a by simp
  note m = mul_int_half[OF t53 tb(1) k]
  show ?thesis
    unfolding scale_runtime_def h sum.case py_add.simps f py_mul.simps m py_int.simps
      trunc_half_nonneg[OF tb(2)]
    by simp
qed

lemma py_pow_float_zero: "py_pow (PyFloat x) 0 = Inr (PyFloat (Finite 1))"
  using float_of_int_exact[of 0] by (simp add: py_pow_def float_pow_def)

lemma mul_int_one:
  assumes "\<bar>b\<bar> < 2 ^ 53"
  shows "float_binop fmul (PyInt b) (PyFloat (Finite 1)) = Inr (PyFloat (Finite (of_int b)))"
  using float_of_int_exact[OF assms] float_of_rat_dyadic[of b 0] assms
  by (simp add: float_binop_def fmul_def signed_zero_def)

lemma int_of_float_of_int: "int_of_float (Finite (of_int b)) = Inr b"
  by simp

lemma scale_mem_first:
  assumes "\<bar>b\<bar> < 2 ^ 53"
  shows "scale_mem (PyFloat x) (PyInt b) 1 = Inr (PyInt b)"
  by (simp add: scale_mem_def py_pow_float_zero mul_int_one[OF assms])






section \<open>Dictionary and state lemmas\<close>

lemma update_absent: "map_of d k = None \<Longrightarrow> AList.update k v d = d @ [(k, v)]"
  by (induction d) (auto split: if_splits)

lemma get_resource_value_presets:
  "presets (state (get_resource_value s rule resource)) = presets s"
  by (simp add: get_resource_value_def use_default_def store_value_def raise_def
      split: sum.splits pyerror.splits)

lemma get_runtime_presets: "presets (state (get_runtime s rule attempt)) = presets s"
  by (simp add: get_runtime_def raise_def Let_def
      split: prod.splits pyval.splits sum.splits pyerror.splits)

lemma get_mem_result:
  "result (get_mem s rule attempt)
   = mem_value (mem_attempt_multiplier s) (resolved s rule (memory_str s)) attempt"
  by (simp add: get_mem_def resolved_def split: prod.splits)

lemma get_threads_result: "result (get_threads s rule) = Inr (resolved s rule (threads_str s))"
  by (simp add: get_threads_def resolved_def split: prod.splits)

lemma get_runtime_int:
  "resolved s rule (runtime_str s) = PyInt t \<Longrightarrow>
   result (get_runtime s rule attempt) = scale_runtime t attempt \<and> printed (get_runtime s rule attempt) = []"
  by (auto simp: get_runtime_def resolved_def Let_def split: prod.splits)

lemma get_runtime_parsed:
  "resolved s rule (runtime_str s) = PyStr rt \<Longrightarrow> parse_runtime rt = Inr t \<Longrightarrow>
   result (get_runtime s rule attempt) = scale_runtime t attempt \<and> printed (get_runtime s rule attempt) = []"
  by (auto simp: get_runtime_def resolved_def Let_def split: prod.splits)

lemma get_runtime_fallback:
  "resolved s rule (runtime_str s) = PyStr rt \<Longrightarrow> parse_runtime rt = Inl ValueError \<Longrightarrow>
   result (get_runtime s rule attempt) = scale_runtime 3600 attempt
   \<and> printed (get_runtime s rule attempt) = [InvalidRuntime rule (PyStr rt)]"
  by (auto simp: get_runtime_def resolved_def Let_def split: prod.splits)

lemma parse_runtime_four:
  "split_fields rt = [fd, fh, fm, fs] \<Longrightarrow> int_of_str fd = Inr d \<Longrightarrow> int_of_str fh = Inr h \<Longrightarrow>
   int_of_str fm = Inr m \<Longrightarrow> int_of_str fs = Inr sec \<Longrightarrow>
   parse_runtime rt = Inr (((d * 24 + h) * 60 + m) * 60 + sec)"
  by (simp add: parse_runtime_def)

lemma parse_runtime_not_four:
  "length (split_fields rt) \<noteq> 4 \<Longrightarrow> parse_runtime rt = Inl ValueError"
  by (auto simp: parse_runtime_def split: list.splits)

lemma resolved_after_store:
  "resolved (s\<lparr>resources := dd_setitem2 (resources s) rule key v\<rparr>) rule key = v"
  by (simp add: resolved_def dd_getitem2_def dd_setitem2_def dd_inner_def AList.update_conv')

lemma parse_runtime_error: "parse_runtime rt = Inl e \<Longrightarrow> e = ValueError"
  by (auto simp: parse_runtime_def split: list.splits sum.splits)


lemma suffix_not_digit: "c \<in> set ''GMK'' \<Longrightarrow> \<not> is_digit c"
  by (auto simp: is_digit_def)

lemmas manager_eval =
  resolved_manager_def init_def Let_def default_args_def contains_def injected_default_def
  get_resource_value_def use_default_def store_value_def raise_def getitem2_def getitem_def
  dd_setitem2_def dd_getitem2_def dd_inner_def resolved_def


lemma update_twice: "AList.update k v (AList.update k v al) = AList.update k v al"
  by (induct al) auto

lemma dd_inner_update: "dd_inner (AList.update rule d r) rule = d"
  by (simp add: dd_inner_def AList.update_conv')

lemma dd_setitem2_twice:
  "dd_setitem2 (dd_setitem2 r rule key v) rule key v = dd_setitem2 r rule key v"
  by (simp add: dd_setitem2_def dd_inner_update update_twice)

lemma use_default_idempotent:
  "state (use_default (state (use_default s rule key)) rule key) = state (use_default s rule key)"
  by (cases "getitem2 (defined_resources s) (default_str s) key")
     (simp_all add: use_default_def store_value_def raise_def dd_setitem2_twice)

lemma use_default_frame:
  "defined_resources (state (use_default s rule key)) = defined_resources s
   \<and> presets (state (use_default s rule key)) = presets s
   \<and> default_str (state (use_default s rule key)) = default_str s"
  by (cases "getitem2 (defined_resources s) (default_str s) key")
     (simp_all add: use_default_def store_value_def raise_def)

lemma get_resource_value_idempotent:
  "state (get_resource_value (state (get_resource_value s rule key)) rule key)
   = state (get_resource_value s rule key)"
proof (cases "getitem2 (defined_resources s) rule key")
  case (Inl e)
  then show ?thesis
    using use_default_idempotent[of s rule key] use_default_frame[of s rule key]
    by (cases e) (simp_all add: get_resource_value_def raise_def)
next
  case (Inr v)
  show ?thesis
  proof (cases "py_int v")
    case (Inr n)
    then show ?thesis using \<open>getitem2 (defined_resources s) rule key = Inr v\<close>
      by (simp add: get_resource_value_def store_value_def dd_setitem2_twice)
  next
    case (Inl e)
    note pi = this
    show ?thesis
    proof (cases "e = ValueError")
      case False
      then show ?thesis
        using pi \<open>getitem2 (defined_resources s) rule key = Inr v\<close>
          use_default_idempotent[of s rule key] use_default_frame[of s rule key]
        by (cases e) (simp_all add: get_resource_value_def raise_def)
    next
      case True
      show ?thesis
      proof (cases "presets_getitem2 (presets s) key v")
        case (Inr w)
        then show ?thesis using pi True \<open>getitem2 (defined_resources s) rule key = Inr v\<close>
          by (simp add: get_resource_value_def store_value_def dd_setitem2_twice)
      next
        case (Inl e')
        then show ?thesis
          using pi True \<open>getitem2 (defined_resources s) rule key = Inr v\<close>
            use_default_idempotent[of s rule key] use_default_frame[of s rule key]
          by (cases e') (simp_all add: get_resource_value_def raise_def)
      qed
    qed
  qed
qed

section \<open>Digit strings and \<open>repr\<close> of whole numbers\<close>

text \<open>
  A string of digits reads as the float of its value, and \<open>repr\<close> of a whole number below
  \<open>10\<^sup>1\<^sup>5\<close> is its decimal digits followed by \<open>.0\<close>: the shortest decimal that rounds to a
  whole number in that range is the number itself.
\<close>

lemma parse_runtime_fails_iff: "parse_runtime rt = Inl ValueError \<longleftrightarrow> \<not> four_int_fields rt"
proof (cases "length (split_fields rt) = 4")
  case False
  then show ?thesis by (simp add: parse_runtime_not_four four_int_fields_def)
next
  case True
  then obtain a b c d where f: "split_fields rt = [a, b, c, d]"
    by (auto simp: length_Suc_conv numeral_eq_Suc)
  show ?thesis
    by (cases "int_of_str a"; cases "int_of_str b"; cases "int_of_str c"; cases "int_of_str d")
       (simp_all add: parse_runtime_def f four_int_fields_def int_accepts_def)
qed

lemma parse_runtime_succeeds: "four_int_fields rt \<Longrightarrow> \<exists>t. parse_runtime rt = Inr t"
  using parse_runtime_fails_iff[of rt] parse_runtime_error[of rt]
  by (cases "parse_runtime rt") auto






























section \<open>Construction\<close>

text \<open>
  C10. Whatever is passed as \<open>presets\<close>, the manager's \<open>presets\<close> attribute is \<open>None\<close> after
  \<open>__init__\<close>, the constructed manager and the caller's view do not depend on the argument,
  and no method changes the attribute afterwards: the supplied presets are neither stored nor
  consulted.
\<close>

theorem init_ignores_presets:
  "presets (fst (init a)) = None
   \<and> init (a\<lparr>presets_arg := p\<rparr>) = init a
   \<and> presets (state (get_resource_value s rule resource)) = presets s
   \<and> presets (state (allocate_resources s)) = presets s
   \<and> presets (state (get_threads s rule)) = presets s
   \<and> presets (state (get_mem s rule attempt)) = presets s
   \<and> presets (state (get_runtime s rule attempt)) = presets s"
proof -
  have 1: "presets (fst (init a)) = None" by (simp add: init_def Let_def)
  have 2: "init (a\<lparr>presets_arg := p\<rparr>) = init a" by (cases "resources_arg a") (simp_all add: init_def injected_default_def Let_def)
  have 3: "presets (state (allocate_resources s)) = presets s"
    by (simp add: allocate_resources_def raise_def)
  have 4: "presets (state (get_threads s rule)) = presets s"
    by (simp add: get_threads_def split: prod.splits)
  have 5: "presets (state (get_mem s rule attempt)) = presets s"
    by (simp add: get_mem_def split: prod.splits)
  show ?thesis using 1 2 3 4 5 get_resource_value_presets get_runtime_presets by blast
qed

theorem init_ignores_presets_witness:
  "presets (fst (init (default_args\<lparr>presets_arg := Some [(''mem_mb'', [(''big'', PyInt 8000)])]\<rparr>))) = None"
  using init_ignores_presets[of "default_args\<lparr>presets_arg := Some [(''mem_mb'', [(''big'', PyInt 8000)])]\<rparr>"]
  by blast

text \<open>
  C9 (as stated): construction leaves the caller's \<open>resources\<close> mapping unchanged, also when
  it lacks the \<open>default\<close> key. It does not: a mapping without \<open>default\<close> is a different
  mapping after the call.
\<close>

theorem init_mutates_caller_resources:
  "snd (init (default_args\<lparr>resources_arg := Some [(''align'', [(''threads'', PyInt 4)])]\<rparr>))
   \<noteq> Some [(''align'', [(''threads'', PyInt 4)])]"
  by (simp add: init_def default_args_def contains_def injected_default_def Let_def)

text \<open>
  C9 (amended): the caller's \<open>resources\<close> mapping is unchanged when it contains the \<open>default\<close>
  key; when it lacks the key, construction appends a \<open>default\<close> entry with the built-in
  values to that same mapping and changes nothing else in it. The manager's
  \<open>defined_resources\<close> is the caller's mapping.
\<close>

theorem init_caller_resources:
  "resources_arg a = Some d \<Longrightarrow>
   snd (init a) = Some (if contains d (default_str_arg a) then d
                        else d @ [(default_str_arg a, injected_default a)])
   \<and> defined_resources (fst (init a)) = the (snd (init a))"
  by (simp add: init_def Let_def contains_def update_absent)

theorem init_caller_resources_witness:
  "snd (init (default_args\<lparr>resources_arg := Some [(''align'', [(''threads'', PyInt 4)])]\<rparr>))
   = Some [(''align'', [(''threads'', PyInt 4)]),
           (''default'', [(''threads'', PyInt 1), (''mem_mb'', PyInt 2000), (''runtime_s'', PyInt 3600)])]"
  using init_caller_resources[of "default_args\<lparr>resources_arg := Some [(''align'', [(''threads'', PyInt 4)])]\<rparr>"
      "[(''align'', [(''threads'', PyInt 4)])]"]
  by (simp add: default_args_def contains_def injected_default_def)

section \<open>Resolution\<close>

text \<open>
  C2. A non-numeric string is to be looked up as a preset name in \<open>Presets[resource]\<close>, with a
  logged diagnostic when the lookup fails. With a preset table that defines the name, the
  code raises \<open>TypeError\<close> instead of resolving it, prints nothing and stores nothing.
\<close>

theorem preset_name_raises_TypeError:
  "get_resource_value
     (fst (init (default_args\<lparr>
        resources_arg := Some [(''align'', [(''mem_mb'', PyStr ''big'')])],
        presets_arg := Some [(''mem_mb'', [(''big'', PyInt 8000)])]\<rparr>)))
     ''align'' ''mem_mb''
   = \<lparr> printed = [], result = Inl TypeError,
       state = fst (init (default_args\<lparr>
        resources_arg := Some [(''align'', [(''mem_mb'', PyStr ''big'')])],
        presets_arg := Some [(''mem_mb'', [(''big'', PyInt 8000)])]\<rparr>)) \<rparr>"
  by (simp add: get_resource_value_def init_def default_args_def contains_def getitem2_def
      getitem_def int_of_str_def strip_def is_space_def isdigit_def is_digit_def
      drop_underscores_def raise_def Let_def)

text \<open>
  C8. A call of \<open>get_resource_value\<close> is to return the resolved value it caches. The call
  stores 4 for \<open>(align, threads)\<close> and returns \<open>None\<close>.
\<close>

theorem get_resource_value_returns_None:
  "result (get_resource_value
     (fst (init (default_args\<lparr>resources_arg := Some [(''align'', [(''threads'', PyInt 4)])]\<rparr>)))
     ''align'' ''threads'') = Inr PyNone
   \<and> resources (state (get_resource_value
     (fst (init (default_args\<lparr>resources_arg := Some [(''align'', [(''threads'', PyInt 4)])]\<rparr>)))
     ''align'' ''threads'')) = [(''align'', [(''threads'', PyInt 4)])]"
  by (simp add: get_resource_value_def init_def default_args_def contains_def getitem2_def
      getitem_def store_value_def dd_setitem2_def dd_inner_def Let_def)

text \<open>
  C3. After \<open>allocate_resources()\<close> every valid override is to be stored in place of the
  base value. The call raises \<open>NameError\<close> on its first statement for every manager: nothing
  is printed, nothing is resolved and no override is applied.
\<close>

theorem allocate_resources_raises_NameError:
  "allocate_resources
     (fst (init (default_args\<lparr>
        resources_arg := Some [(''default'', [(''threads'', PyInt 1), (''mem_mb'', PyInt 2000), (''runtime_s'', PyInt 3600)]),
                               (''align'', [(''threads'', PyInt 2)])],
        override_arg := Some [(''align'', [(''threads'', PyInt 8)])]\<rparr>)))
   = \<lparr> printed = [], result = Inl NameError,
       state = fst (init (default_args\<lparr>
        resources_arg := Some [(''default'', [(''threads'', PyInt 1), (''mem_mb'', PyInt 2000), (''runtime_s'', PyInt 3600)]),
                               (''align'', [(''threads'', PyInt 2)])],
        override_arg := Some [(''align'', [(''threads'', PyInt 8)])]\<rparr>)) \<rparr>
   \<and> resources (state (allocate_resources
     (fst (init (default_args\<lparr>
        resources_arg := Some [(''default'', [(''threads'', PyInt 1), (''mem_mb'', PyInt 2000), (''runtime_s'', PyInt 3600)]),
                               (''align'', [(''threads'', PyInt 2)])],
        override_arg := Some [(''align'', [(''threads'', PyInt 8)])]\<rparr>))))) = []"
  by (simp add: allocate_resources_def raise_def init_def Let_def)

section \<open>The getters\<close>

text \<open>
  C1. For a rule that is absent from the definitions and was never resolved, the getters
  are to return the \<open>default\<close> entry's values (1 thread, 2000 MB, 3600 s under the built-in
  default). On a manager built with no arguments, whose \<open>default\<close> entry holds exactly these
  values, \<open>get_threads\<close>, \<open>get_mem\<close> and \<open>get_runtime\<close> at attempt 1 all return 0 for
  such a rule.
\<close>

theorem absent_rule_reads_zero:
  "result (get_threads (fst (init default_args)) ''align'') = Inr (PyInt 0)
   \<and> result (get_mem (fst (init default_args)) ''align'' 1) = Inr (PyInt 0)
   \<and> result (get_runtime (fst (init default_args)) ''align'' 1) = Inr (PyInt 0)
   \<and> defined_resources (fst (init default_args))
       = [(''default'', [(''threads'', PyInt 1), (''mem_mb'', PyInt 2000), (''runtime_s'', PyInt 3600)])]"
proof -
  have r: "resolved (fst (init default_args)) ''align'' k = PyInt 0" for k
    by (simp add: resolved_def init_def Let_def dd_getitem2_def dd_inner_def)
  have m: "mem_attempt_multiplier (fst (init default_args)) = PyFloat (Finite (3 / 2))"
    by (simp add: init_def Let_def default_args_def)
  have 1: "result (get_threads (fst (init default_args)) ''align'') = Inr (PyInt 0)"
    by (simp add: get_threads_result r)
  have 2: "result (get_mem (fst (init default_args)) ''align'' 1) = Inr (PyInt 0)"
    using scale_mem_first[of 0] by (simp add: get_mem_result r m mem_value_def)
  have 3: "result (get_runtime (fst (init default_args)) ''align'' 1) = Inr (PyInt 0)"
    using get_runtime_int[OF r, of 1] scale_runtime_first[of 0] by simp
  have 4: "defined_resources (fst (init default_args))
       = [(''default'', [(''threads'', PyInt 1), (''mem_mb'', PyInt 2000), (''runtime_s'', PyInt 3600)])]"
    by (simp add: init_def Let_def default_args_def contains_def injected_default_def)
  show ?thesis using 1 2 3 4 by blast
qed

text \<open>
  C4 (as stated): a runtime string may omit the day component. For \<open>02:30:00\<close> the claim gives
  \<open>2 \<times> 3600 + 30 \<times> 60 + 0\<close> seconds; \<open>get_runtime\<close> does not return that.
\<close>

theorem dayless_runtime_falls_back:
  "result (get_runtime
      (resolved_manager
         (default_args\<lparr>resources_arg := Some [(''default'',
            [(''threads'', PyInt 1), (''mem_mb'', PyInt 2000), (''runtime_s'', PyStr ''02:30:00'')])]\<rparr>)
         [(''align'', ''runtime_s'')])
      ''align'' 1) \<noteq> Inr (PyInt (2 * 3600 + 30 * 60 + 0))"
proof -
  let ?m = "resolved_manager
         (default_args\<lparr>resources_arg := Some [(''default'',
            [(''threads'', PyInt 1), (''mem_mb'', PyInt 2000), (''runtime_s'', PyStr ''02:30:00'')])]\<rparr>)
         [(''align'', ''runtime_s'')]"
  have r: "resolved ?m ''align'' (runtime_str ?m) = PyStr ''02:30:00''"
    by (simp add: manager_eval)
  have p: "parse_runtime ''02:30:00'' = Inl ValueError"
    by (simp add: parse_runtime_def)
  have "result (get_runtime ?m ''align'' 1) = Inr (PyInt 3600)"
    using get_runtime_fallback[OF r p, of 1] scale_runtime_first[of 3600] by simp
  then show ?thesis by simp
qed

text \<open>
  C4 (amended): \<open>get_runtime\<close> takes the resolved runtime either as an integer number of
  seconds or as a string that splits at \<open>:\<close> and \<open>-\<close> into exactly four integer fields
  \<open>D\<close>, \<open>H\<close>, \<open>M\<close>, \<open>S\<close> (the day field is required); the string is turned into
  \<open>((D \<times> 24 + H) \<times> 60 + M) \<times> 60 + S\<close> seconds before the attempt scaling is applied. A string
  with another number of fields is replaced by 3600 seconds, with a diagnostic. The scaling
  leaves the seconds unchanged at attempt 1 and gives \<open>t \<times> (attempt + 1) div 2\<close> at later
  attempts, as long as the numbers stay below \<open>2\<^sup>5\<^sup>3\<close>. In particular \<open>1-02:30:00\<close> gives
  95400 seconds.
\<close>

theorem get_runtime_four_fields:
  "(resolved s rule (runtime_str s) = PyInt t \<longrightarrow>
      result (get_runtime s rule attempt) = scale_runtime t attempt)
   \<and> (resolved s rule (runtime_str s) = PyStr rt \<and> split_fields rt = [fd, fh, fm, fs]
      \<and> int_of_str fd = Inr d \<and> int_of_str fh = Inr h \<and> int_of_str fm = Inr m \<and> int_of_str fs = Inr sec \<longrightarrow>
      result (get_runtime s rule attempt) = scale_runtime (((d * 24 + h) * 60 + m) * 60 + sec) attempt
      \<and> printed (get_runtime s rule attempt) = [])
   \<and> (resolved s rule (runtime_str s) = PyStr rt \<and> length (split_fields rt) \<noteq> 4 \<longrightarrow>
      result (get_runtime s rule attempt) = scale_runtime 3600 attempt
      \<and> printed (get_runtime s rule attempt) = [InvalidRuntime rule (PyStr rt)])
   \<and> (\<bar>t\<bar> < 2 ^ 53 \<longrightarrow> scale_runtime t 1 = Inr (PyInt t))
   \<and> (1 \<le> attempt \<and> attempt + 1 < 2 ^ 53 \<and> 0 \<le> t \<and> t * (attempt + 1) < 2 ^ 53 \<longrightarrow>
      scale_runtime t attempt = Inr (PyInt (t * (attempt + 1) div 2)))"
proof (intro conjI impI)
  assume "resolved s rule (runtime_str s) = PyInt t"
  then show "result (get_runtime s rule attempt) = scale_runtime t attempt"
    by (simp add: get_runtime_int)
next
  assume a: "resolved s rule (runtime_str s) = PyStr rt \<and> split_fields rt = [fd, fh, fm, fs]
      \<and> int_of_str fd = Inr d \<and> int_of_str fh = Inr h \<and> int_of_str fm = Inr m \<and> int_of_str fs = Inr sec"
  then have p: "parse_runtime rt = Inr (((d * 24 + h) * 60 + m) * 60 + sec)"
    by (simp add: parse_runtime_four)
  from a p show "result (get_runtime s rule attempt)
      = scale_runtime (((d * 24 + h) * 60 + m) * 60 + sec) attempt"
    by (simp add: get_runtime_parsed)
  from a p show "printed (get_runtime s rule attempt) = []"
    by (simp add: get_runtime_parsed)
next
  assume a: "resolved s rule (runtime_str s) = PyStr rt \<and> length (split_fields rt) \<noteq> 4"
  then have p: "parse_runtime rt = Inl ValueError" by (simp add: parse_runtime_not_four)
  from a p show "result (get_runtime s rule attempt) = scale_runtime 3600 attempt"
    by (simp add: get_runtime_fallback)
  from a p show "printed (get_runtime s rule attempt) = [InvalidRuntime rule (PyStr rt)]"
    by (simp add: get_runtime_fallback)
next
  assume "\<bar>t\<bar> < 2 ^ 53"
  then show "scale_runtime t 1 = Inr (PyInt t)" by (rule scale_runtime_first)
next
  assume "1 \<le> attempt \<and> attempt + 1 < 2 ^ 53 \<and> 0 \<le> t \<and> t * (attempt + 1) < 2 ^ 53"
  then show "scale_runtime t attempt = Inr (PyInt (t * (attempt + 1) div 2))"
    by (simp add: scale_runtime_exact)
qed

theorem get_runtime_four_fields_witness:
  "result (get_runtime
      (resolved_manager
         (default_args\<lparr>resources_arg := Some [(''default'',
            [(''threads'', PyInt 1), (''mem_mb'', PyInt 2000), (''runtime_s'', PyStr ''1-02:30:00'')])]\<rparr>)
         [(''align'', ''runtime_s'')])
      ''align'' 1) = Inr (PyInt 95400)"
proof -
  let ?m = "resolved_manager
         (default_args\<lparr>resources_arg := Some [(''default'',
            [(''threads'', PyInt 1), (''mem_mb'', PyInt 2000), (''runtime_s'', PyStr ''1-02:30:00'')])]\<rparr>)
         [(''align'', ''runtime_s'')]"
  have r: "resolved ?m ''align'' (runtime_str ?m) = PyStr ''1-02:30:00''"
    by (simp add: manager_eval)
  have f: "split_fields ''1-02:30:00'' = [''1'', ''02'', ''30'', ''00'']" by simp
  have i: "int_of_str ''1'' = Inr 1" "int_of_str ''02'' = Inr 2" "int_of_str ''30'' = Inr 30"
    "int_of_str ''00'' = Inr 0"
    by code_simp+
  have b: "\<bar>95400 :: int\<bar> < 2 ^ 53" by simp
  show ?thesis
    using get_runtime_four_fields[where s = "?m" and rule = "''align''" and attempt = 1
        and rt = "''1-02:30:00''" and fd = "''1''" and fh = "''02''" and fm = "''30''"
        and fs = "''00''" and d = 1 and h = 2 and m = 30 and sec = 0 and t = 95400]
      r f i b
    by simp
qed

text \<open>
  C5 (as stated): every runtime string that is not of the form \<open>D-HH:MM:SS\<close> is replaced by
  3600 seconds, with a diagnostic. The string \<open>1-2-3-4\<close> has no colon and is not of that
  form, yet \<open>get_runtime\<close> prints nothing for it and does not return 3600: it reads the four
  fields as days, hours, minutes and seconds.
\<close>

theorem unmatched_runtime_is_parsed:
  "printed (get_runtime
      (resolved_manager
         (default_args\<lparr>resources_arg := Some [(''default'',
            [(''threads'', PyInt 1), (''mem_mb'', PyInt 2000), (''runtime_s'', PyStr ''1-2-3-4'')])]\<rparr>)
         [(''align'', ''runtime_s'')])
      ''align'' 1) = []
   \<and> result (get_runtime
      (resolved_manager
         (default_args\<lparr>resources_arg := Some [(''default'',
            [(''threads'', PyInt 1), (''mem_mb'', PyInt 2000), (''runtime_s'', PyStr ''1-2-3-4'')])]\<rparr>)
         [(''align'', ''runtime_s'')])
      ''align'' 1) \<noteq> Inr (PyInt 3600)"
proof -
  let ?m = "resolved_manager
         (default_args\<lparr>resources_arg := Some [(''default'',
            [(''threads'', PyInt 1), (''mem_mb'', PyInt 2000), (''runtime_s'', PyStr ''1-2-3-4'')])]\<rparr>)
         [(''align'', ''runtime_s'')]"
  have r: "resolved ?m ''align'' (runtime_str ?m) = PyStr ''1-2-3-4''"
    by (simp add: manager_eval)
  have f: "split_fields ''1-2-3-4'' = [''1'', ''2'', ''3'', ''4'']" by simp
  have i: "int_of_str ''1'' = Inr 1" "int_of_str ''2'' = Inr 2" "int_of_str ''3'' = Inr 3"
    "int_of_str ''4'' = Inr 4"
    by code_simp+
  have p: "parse_runtime ''1-2-3-4'' = Inr 93784"
    using parse_runtime_four[OF f i] by simp
  show ?thesis
    using get_runtime_parsed[OF r p, of 1] scale_runtime_first[of 93784] by simp
qed

text \<open>
  C5 (amended): when the resolved runtime is a string that does not split at \<open>:\<close> and \<open>-\<close>
  into exactly four fields that \<open>int\<close> reads (as \<open>bogus\<close>), \<open>get_runtime\<close> prints a
  diagnostic and puts 3600 seconds in its place: it returns 3600 at attempt 1,
  \<open>1800 \<times> (attempt + 1)\<close> at every attempt from 1 to \<open>2\<^sup>4\<^sup>0\<close>, and raises nothing. A string
  that does split into four such fields gets no diagnostic.
\<close>

theorem get_runtime_unparsed_fallback:
  assumes "resolved s rule (runtime_str s) = PyStr rt"
  shows "(\<not> four_int_fields rt \<longrightarrow>
            printed (get_runtime s rule attempt) = [InvalidRuntime rule (PyStr rt)]
            \<and> result (get_runtime s rule 1) = Inr (PyInt 3600)
            \<and> (1 \<le> attempt \<and> attempt \<le> 2 ^ 40 \<longrightarrow>
                 result (get_runtime s rule attempt) = Inr (PyInt (1800 * (attempt + 1)))))
         \<and> (four_int_fields rt \<longrightarrow> printed (get_runtime s rule attempt) = [])"
proof (intro conjI impI)
  assume "four_int_fields rt"
  then obtain t where "parse_runtime rt = Inr t" using parse_runtime_succeeds by blast
  then show "printed (get_runtime s rule attempt) = []"
    using get_runtime_parsed[OF assms] by simp
next
  assume n: "\<not> four_int_fields rt"
  then have p: "parse_runtime rt = Inl ValueError" by (simp add: parse_runtime_fails_iff)
  show "printed (get_runtime s rule attempt) = [InvalidRuntime rule (PyStr rt)]"
    using get_runtime_fallback[OF assms p] by simp
  show "result (get_runtime s rule 1) = Inr (PyInt 3600)"
    using get_runtime_fallback[OF assms p, of 1] scale_runtime_first[of 3600] by simp
  assume a: "1 \<le> attempt \<and> attempt \<le> 2 ^ 40"
  have "scale_runtime 3600 attempt = Inr (PyInt (3600 * (attempt + 1) div 2))"
    using a by (intro scale_runtime_exact) auto
  moreover have "3600 * (attempt + 1) div 2 = 1800 * (attempt + 1)" by simp
  ultimately show "result (get_runtime s rule attempt) = Inr (PyInt (1800 * (attempt + 1)))"
    using get_runtime_fallback[OF assms p, of attempt] by simp
qed

theorem get_runtime_unparsed_fallback_witness:
  "printed (get_runtime
      (resolved_manager
         (default_args\<lparr>resources_arg := Some [(''default'',
            [(''threads'', PyInt 1), (''mem_mb'', PyInt 2000), (''runtime_s'', PyStr ''bogus'')])]\<rparr>)
         [(''align'', ''runtime_s'')])
      ''align'' 3) = [InvalidRuntime ''align'' (PyStr ''bogus'')]
   \<and> result (get_runtime
      (resolved_manager
         (default_args\<lparr>resources_arg := Some [(''default'',
            [(''threads'', PyInt 1), (''mem_mb'', PyInt 2000), (''runtime_s'', PyStr ''bogus'')])]\<rparr>)
         [(''align'', ''runtime_s'')])
      ''align'' 1) = Inr (PyInt 3600)
   \<and> result (get_runtime
      (resolved_manager
         (default_args\<lparr>resources_arg := Some [(''default'',
            [(''threads'', PyInt 1), (''mem_mb'', PyInt 2000), (''runtime_s'', PyStr ''bogus'')])]\<rparr>)
         [(''align'', ''runtime_s'')])
      ''align'' 3) = Inr (PyInt 7200)"
proof -
  let ?m = "resolved_manager
         (default_args\<lparr>resources_arg := Some [(''default'',
            [(''threads'', PyInt 1), (''mem_mb'', PyInt 2000), (''runtime_s'', PyStr ''bogus'')])]\<rparr>)
         [(''align'', ''runtime_s'')]"
  have r: "resolved ?m ''align'' (runtime_str ?m) = PyStr ''bogus''"
    by (simp add: manager_eval)
  have p: "\<not> four_int_fields ''bogus''"
    by (simp add: four_int_fields_def)
  show ?thesis using get_runtime_unparsed_fallback[OF r, of 3] p by simp
qed






end
